theory Spec2Isabelle
  imports Main "HOL-Library.Word"
begin

section \<open>JavaScript strings\<close>

text \<open>
  A JavaScript string is a sequence of UTF-16 code units. The program concatenates
  strings, compares them, tests them for emptiness, trims them and asks for a prefix;
  all of these act on code units, so a string is a list of 16-bit words. \<open>js\<close> embeds
  an ASCII literal of the source.
\<close>

type_synonym code_unit = "16 word"

type_synonym jsstring = "code_unit list"

definition js :: "string \<Rightarrow> jsstring" where
  "js s = map of_char s"

text \<open>\<^verbatim>\<open>s.startsWith(searchString)\<close>, from position 0.\<close>

definition startsWith :: "jsstring \<Rightarrow> jsstring \<Rightarrow> bool" where
  "startsWith s searchString = (take (length searchString) s = searchString)"

text \<open>
  The code units that \<^verbatim>\<open>String.prototype.trim\<close> strips: ECMAScript's WhiteSpace
  (TAB, VT, FF, SP, NBSP, ZWNBSP and the Unicode space separators) and LineTerminator
  (LF, CR, LS, PS).
\<close>

definition isWhiteSpace :: "code_unit \<Rightarrow> bool" where
  "isWhiteSpace c =
     (c = 0x0009 \<or> c = 0x000A \<or> c = 0x000B \<or> c = 0x000C \<or> c = 0x000D \<or> c = 0x0020 \<or>
      c = 0x00A0 \<or> c = 0x1680 \<or> (0x2000 \<le> c \<and> c \<le> 0x200A) \<or> c = 0x2028 \<or>
      c = 0x2029 \<or> c = 0x202F \<or> c = 0x205F \<or> c = 0x3000 \<or> c = 0xFEFF)"

definition trim :: "jsstring \<Rightarrow> jsstring" where
  "trim s = rev (dropWhile isWhiteSpace (rev (dropWhile isWhiteSpace s)))"

text \<open>
  \<^verbatim>\<open>x || d\<close> on an optional string: \<^verbatim>\<open>undefined\<close> and the empty string are falsy
  and give \<open>d\<close>.
\<close>

definition falsy_or :: "jsstring option \<Rightarrow> jsstring \<Rightarrow> jsstring" where
  "falsy_or x d = (case x of None \<Rightarrow> d | Some t \<Rightarrow> if t = [] then d else t)"

text \<open>An optional string inside a template literal: \<^verbatim>\<open>undefined\<close> prints as that word.\<close>

definition template :: "jsstring option \<Rightarrow> jsstring" where
  "template x = (case x of None \<Rightarrow> js ''undefined'' | Some t \<Rightarrow> t)"


section \<open>The generation service (services/geminiService.ts)\<close>

subsection \<open>Requests and responses of the SDK\<close>

text \<open>
  The shapes the program reads and writes. Every field the TypeScript declares optional
  is an \<open>option\<close>.
\<close>

record blob =
  mimeType :: "jsstring option"
  data :: "jsstring option"

record part =
  part_text :: "jsstring option"
  inlineData :: "blob option"

record content =
  parts :: "part list option"

record candidate =
  content :: "content option"

record response =
  candidates :: "candidate list option"
  response_text :: "jsstring option"

record request =
  model :: jsstring
  contents :: "part list"
  config_aspectRatio :: "jsstring option"

text \<open>A thrown \<^verbatim>\<open>Error\<close>, with its message.\<close>

datatype error = Error jsstring

text \<open>
  \<^verbatim>\<open>ai.models.generateContent\<close> is the remote service: the model takes its outcome for
  each request as a parameter, a response or the failure it rejects with. The service
  functions return the requests they issued, in order, next to their result.
\<close>

type_synonym generateContent = "request \<Rightarrow> error + response"

subsection \<open>generatePromptFromMedia\<close>

definition describe_prompt :: jsstring where
  "describe_prompt = js (''Analyze this media in extreme detail. Generate a highly descriptive prompt that could be used in an AI image or video generator to recreate this exact scene. Include details about the subject, lighting, camera angle, colors, mood, style, texture, and any specific actions or movements if it's a video. Make it a comprehensive, comma-separated or well-structured paragraph prompt suitable for high-end AI generators like Midjourney, Stable Diffusion, or Veo. Output ONLY the prompt text, without any introductory or concluding remarks.'')"

definition describe_request :: "jsstring \<Rightarrow> jsstring \<Rightarrow> request" where
  "describe_request mimeType' base64Data =
     (let mediaPart = \<lparr>part_text = None,
                       inlineData = Some \<lparr>mimeType = Some mimeType', data = Some base64Data\<rparr>\<rparr>
      in \<lparr>model = js ''gemini-3.1-pro-preview'',
          contents = [mediaPart, \<lparr>part_text = Some describe_prompt, inlineData = None\<rparr>],
          config_aspectRatio = None\<rparr>)"

definition generatePromptFromMedia ::
  "generateContent \<Rightarrow> jsstring \<Rightarrow> jsstring \<Rightarrow> request list \<times> (error + jsstring)" where
  "generatePromptFromMedia generate mimeType' base64Data =
     (let req = describe_request mimeType' base64Data
      in ([req],
          case generate req of
            Inl e \<Rightarrow> Inl e
          | Inr response \<Rightarrow>
              Inr (falsy_or (response_text response) (js ''Failed to generate prompt.''))))"

subsection \<open>generateImageFromPrompt\<close>

text \<open>Lines 29 to 35: the text that is sent.\<close>

definition finalPrompt :: "jsstring \<Rightarrow> jsstring \<Rightarrow> jsstring \<Rightarrow> jsstring" where
  "finalPrompt prompt style negativePrompt =
     (let fp = prompt;
          fp = (if style \<noteq> js ''none'' then fp @ js ''\<newline>Style: '' @ style else fp);
          fp = (if negativePrompt \<noteq> [] then fp @ js ''\<newline>Negative prompt: '' @ negativePrompt
                else fp)
      in fp)"

definition image_request :: "jsstring \<Rightarrow> jsstring \<Rightarrow> request" where
  "image_request text' aspectRatio' =
     \<lparr>model = js ''gemini-2.5-flash-image'',
      contents = [\<lparr>part_text = Some text', inlineData = None\<rparr>],
      config_aspectRatio = Some aspectRatio'\<rparr>"

text \<open>\<^verbatim>\<open>response.candidates?.[0]?.content?.parts || []\<close>\<close>

definition response_parts :: "response \<Rightarrow> part list" where
  "response_parts response =
     (case candidates response of
        None \<Rightarrow> []
      | Some [] \<Rightarrow> []
      | Some (c # _) \<Rightarrow>
          (case content c of
             None \<Rightarrow> []
           | Some ct \<Rightarrow> (case parts ct of None \<Rightarrow> [] | Some ps \<Rightarrow> ps)))"

text \<open>Line 52: the template literal that is returned for a part with \<^verbatim>\<open>inlineData\<close>.\<close>

definition data_uri :: "blob \<Rightarrow> jsstring" where
  "data_uri b =
     js ''data:'' @ falsy_or (mimeType b) (js ''image/png'') @ js '';base64,'' @ template (data b)"

text \<open>The loop over the parts, and the throw after it.\<close>

fun scan_parts :: "part list \<Rightarrow> error + jsstring" where
  "scan_parts [] = Inl (Error (js ''No image generated''))"
| "scan_parts (p # rest) =
     (case inlineData p of
        Some b \<Rightarrow> Inr (data_uri b)
      | None \<Rightarrow> scan_parts rest)"

text \<open>
  The call site passes all four arguments, so the defaults of the signature
  (\<^verbatim>\<open>"1:1"\<close>, \<^verbatim>\<open>"none"\<close>, \<^verbatim>\<open>""\<close>) are never taken.
\<close>

definition generateImageFromPrompt ::
  "generateContent \<Rightarrow> jsstring \<Rightarrow> jsstring \<Rightarrow> jsstring \<Rightarrow> jsstring \<Rightarrow>
   request list \<times> (error + jsstring)" where
  "generateImageFromPrompt generate prompt aspectRatio' style negativePrompt =
     (let req = image_request (finalPrompt prompt style negativePrompt) aspectRatio'
      in ([req],
          case generate req of
            Inl e \<Rightarrow> Inl e
          | Inr response \<Rightarrow> scan_parts (response_parts response)))"

section \<open>The application (App.tsx)\<close>

subsection \<open>State\<close>

text \<open>A \<^verbatim>\<open>File\<close> of the browser: its name, its declared MIME type, its size in bytes.\<close>

record File =
  file_name :: jsstring
  file_type :: jsstring
  file_size :: nat

datatype tab = Source | Generated

text \<open>The \<^verbatim>\<open>useState\<close> cells of the component, with their initial values. The cell
  \<^verbatim>\<open>file\<close> is written \<open>file'\<close>.\<close>

record app_state =
  file' :: "File option"
  previewUrl :: "jsstring option"
  isDragging :: bool
  isGeneratingPrompt :: bool
  isGeneratingImage :: bool
  prompt :: jsstring
  generatedImage :: "jsstring option"
  copied :: bool
  error :: "jsstring option"
  activeTab :: tab
  showAdvanced :: bool
  aspectRatio :: jsstring
  style :: jsstring
  negativePrompt :: jsstring

definition initial_state :: app_state where
  "initial_state =
     \<lparr>file' = None, previewUrl = None, isDragging = False, isGeneratingPrompt = False,
      isGeneratingImage = False, prompt = [], generatedImage = None, copied = False,
      error = None, activeTab = Source, showAdvanced = False, aspectRatio = js ''1:1'',
      style = js ''none'', negativePrompt = []\<rparr>"

subsection \<open>Effects\<close>

text \<open>
  A handler is the list of things it does, in order: the state setters it calls and the
  calls that leave the component. What the outside answers is a parameter: the outcome of
  the remote call, of \<^verbatim>\<open>fileToBase64\<close> (imported from utils/fileUtils) and the URL that
  \<^verbatim>\<open>URL.createObjectURL\<close> hands out.
\<close>

datatype effect =
    SetFile "File option"
  | SetPreviewUrl "jsstring option"
  | SetIsGeneratingPrompt bool
  | SetIsGeneratingImage bool
  | SetPrompt jsstring
  | SetGeneratedImage "jsstring option"
  | SetError "jsstring option"
  | SetActiveTab tab
  | CreateObjectURL File
  | RevokeObjectURL jsstring
  | FileToBase64 File
  | GenerateContent request
  | ConsoleError error

record env =
  generate :: generateContent
  fileToBase64 :: "File \<Rightarrow> error + jsstring"
  createObjectURL :: "File \<Rightarrow> jsstring"

fun update :: "app_state \<Rightarrow> effect \<Rightarrow> app_state" where
  "update s (SetFile v) = s\<lparr>file' := v\<rparr>"
| "update s (SetPreviewUrl v) = s\<lparr>previewUrl := v\<rparr>"
| "update s (SetIsGeneratingPrompt v) = s\<lparr>isGeneratingPrompt := v\<rparr>"
| "update s (SetIsGeneratingImage v) = s\<lparr>isGeneratingImage := v\<rparr>"
| "update s (SetPrompt v) = s\<lparr>prompt := v\<rparr>"
| "update s (SetGeneratedImage v) = s\<lparr>generatedImage := v\<rparr>"
| "update s (SetError v) = s\<lparr>error := v\<rparr>"
| "update s (SetActiveTab v) = s\<lparr>activeTab := v\<rparr>"
| "update s (CreateObjectURL _) = s"
| "update s (RevokeObjectURL _) = s"
| "update s (FileToBase64 _) = s"
| "update s (GenerateContent _) = s"
| "update s (ConsoleError _) = s"

text \<open>The state once every setter of a handler has been applied.\<close>

definition run :: "app_state \<Rightarrow> effect list \<Rightarrow> app_state" where
  "run s effects = foldl update s effects"

text \<open>The requests a handler sends to the remote service, and the files it encodes.\<close>

fun requests_of :: "effect list \<Rightarrow> request list" where
  "requests_of [] = []"
| "requests_of (GenerateContent r # es) = r # requests_of es"
| "requests_of (_ # es) = requests_of es"

fun encoded_of :: "effect list \<Rightarrow> File list" where
  "encoded_of [] = []"
| "encoded_of (FileToBase64 f # es) = f # encoded_of es"
| "encoded_of (_ # es) = encoded_of es"

subsection \<open>Handlers\<close>

definition processFile :: "env \<Rightarrow> File \<Rightarrow> effect list" where
  "processFile e selectedFile =
     SetError None #
     (if \<not> startsWith (file_type selectedFile) (js ''image/'') \<and>
         \<not> startsWith (file_type selectedFile) (js ''video/'')
      then [SetError (Some (js ''Please upload an image or video file.''))]
      else if file_size selectedFile > 15 * 1024 * 1024
      then [SetError (Some (js ''File size exceeds 15MB limit. Please choose a smaller file.''))]
      else [SetFile (Some selectedFile), SetActiveTab Source, CreateObjectURL selectedFile,
            SetPreviewUrl (Some (createObjectURL e selectedFile))])"

definition handleGeneratePrompt :: "env \<Rightarrow> app_state \<Rightarrow> effect list" where
  "handleGeneratePrompt e s =
     (case file' s of
        None \<Rightarrow> []
      | Some f \<Rightarrow>
          [SetIsGeneratingPrompt True, SetError None, FileToBase64 f] @
          (case fileToBase64 e f of
             Inl err \<Rightarrow>
               [ConsoleError err,
                SetError (Some (js ''Failed to generate prompt. Please try again.''))]
           | Inr base64Data \<Rightarrow>
               (case generatePromptFromMedia (generate e) (file_type f) base64Data of
                  (reqs, Inr generated) \<Rightarrow> map GenerateContent reqs @ [SetPrompt generated]
                | (reqs, Inl err) \<Rightarrow>
                    map GenerateContent reqs @
                    [ConsoleError err,
                     SetError (Some (js ''Failed to generate prompt. Please try again.''))])) @
          [SetIsGeneratingPrompt False])"

definition handleGenerateImage :: "env \<Rightarrow> app_state \<Rightarrow> effect list" where
  "handleGenerateImage e s =
     (if trim (prompt s) = [] then [SetError (Some (js ''Please enter a prompt first.''))]
      else
        [SetIsGeneratingImage True, SetError None] @
        (case generateImageFromPrompt (generate e) (prompt s) (aspectRatio s) (style s)
                (negativePrompt s) of
           (reqs, Inr imageUrl) \<Rightarrow>
             map GenerateContent reqs @ [SetGeneratedImage (Some imageUrl), SetActiveTab Generated]
         | (reqs, Inl err) \<Rightarrow>
             map GenerateContent reqs @
             [ConsoleError err,
              SetError (Some (js ''Failed to generate image. Please try again.''))]) @
        [SetIsGeneratingImage False])"

definition resetSource :: "app_state \<Rightarrow> effect list" where
  "resetSource s =
     SetFile None #
     (case previewUrl s of
        None \<Rightarrow> []
      | Some u \<Rightarrow> if u = [] then [] else [RevokeObjectURL u]) @
     [SetPreviewUrl None, SetError None]"

subsection \<open>Fixtures\<close>

text \<open>
  Concrete services and responses, for evaluating the handlers: a service that answers
  every request with one response, one that rejects every request, and an environment
  around either.
\<close>

definition responds :: "response \<Rightarrow> generateContent" where
  "responds r = (\<lambda>_. Inr r)"

definition rejects :: "error \<Rightarrow> generateContent" where
  "rejects err = (\<lambda>_. Inl err)"

definition stub_env :: "generateContent \<Rightarrow> env" where
  "stub_env g =
     \<lparr>generate = g, fileToBase64 = (\<lambda>_. Inr (js ''QUJD'')),
      createObjectURL = (\<lambda>_. js ''blob:preview'')\<rparr>"

definition text_part :: "jsstring \<Rightarrow> part" where
  "text_part t = \<lparr>part_text = Some t, inlineData = None\<rparr>"

definition inline_part :: "jsstring option \<Rightarrow> jsstring option \<Rightarrow> part" where
  "inline_part m d = \<lparr>part_text = None, inlineData = Some \<lparr>mimeType = m, data = d\<rparr>\<rparr>"

definition candidate_of :: "part list \<Rightarrow> candidate" where
  "candidate_of ps = \<lparr>content = Some \<lparr>parts = Some ps\<rparr>\<rparr>"

definition response_of :: "candidate list \<Rightarrow> response" where
  "response_of cs = \<lparr>candidates = Some cs, response_text = None\<rparr>"

definition describe_response :: "jsstring option \<Rightarrow> response" where
  "describe_response t = \<lparr>candidates = None, response_text = t\<rparr>"

definition editing :: "jsstring \<Rightarrow> app_state" where
  "editing p = initial_state\<lparr>prompt := p\<rparr>"

definition showing :: "jsstring \<Rightarrow> jsstring \<Rightarrow> app_state" where
  "showing p url =
     initial_state\<lparr>prompt := p, generatedImage := Some url, activeTab := Generated\<rparr>"


section \<open>Properties of the service\<close>

lemma scan_parts_no_inline:
  "\<forall>q\<in>set ps. inlineData q = None \<Longrightarrow> scan_parts ps = Inl (Error (js ''No image generated''))"
  by (induction ps) simp_all

lemma scan_parts_first_inline:
  "\<forall>x\<in>set pre. inlineData x = None \<Longrightarrow> inlineData q = Some b \<Longrightarrow>
   scan_parts (pre @ q # post) = Inr (data_uri b)"
  by (induction pre) simp_all

lemma fst_generateImageFromPrompt:
  "fst (generateImageFromPrompt gen p a s n) = [image_request (finalPrompt p s n) a]"
  by (simp add: generateImageFromPrompt_def Let_def)

lemma snd_generateImageFromPrompt:
  "gen (image_request (finalPrompt p s n) a) = Inr r \<Longrightarrow>
   snd (generateImageFromPrompt gen p a s n) = scan_parts (response_parts r)"
  by (simp add: generateImageFromPrompt_def Let_def)

text \<open>
  Claim C1. The synthesize operation sends exactly one request, to the image model, with
  the aspect ratio it was given and a single text part. The text of that part is the
  prompt itself when the style is \<^verbatim>\<open>"none"\<close> and the negative prompt is empty; the
  prompt followed by a newline and \<^verbatim>\<open>Style: <style>\<close> when the style is not
  \<^verbatim>\<open>"none"\<close>; and, after that, a newline and \<^verbatim>\<open>Negative prompt: <text>\<close> when the
  negative prompt is not empty. The style line always comes before the negative prompt
  line.
\<close>

theorem composed_text:
  "(s = js ''none'' \<and> n = [] \<longrightarrow>
      fst (generateImageFromPrompt gen p a s n) =
        [\<lparr>model = js ''gemini-2.5-flash-image'',
          contents = [\<lparr>part_text = Some p, inlineData = None\<rparr>],
          config_aspectRatio = Some a\<rparr>]) \<and>
   (s \<noteq> js ''none'' \<and> n = [] \<longrightarrow>
      fst (generateImageFromPrompt gen p a s n) =
        [\<lparr>model = js ''gemini-2.5-flash-image'',
          contents = [\<lparr>part_text = Some (p @ js ''\<newline>Style: '' @ s), inlineData = None\<rparr>],
          config_aspectRatio = Some a\<rparr>]) \<and>
   (s = js ''none'' \<and> n \<noteq> [] \<longrightarrow>
      fst (generateImageFromPrompt gen p a s n) =
        [\<lparr>model = js ''gemini-2.5-flash-image'',
          contents = [\<lparr>part_text = Some (p @ js ''\<newline>Negative prompt: '' @ n),
                       inlineData = None\<rparr>],
          config_aspectRatio = Some a\<rparr>]) \<and>
   (s \<noteq> js ''none'' \<and> n \<noteq> [] \<longrightarrow>
      fst (generateImageFromPrompt gen p a s n) =
        [\<lparr>model = js ''gemini-2.5-flash-image'',
          contents =
            [\<lparr>part_text =
                Some (p @ js ''\<newline>Style: '' @ s @ js ''\<newline>Negative prompt: '' @ n),
              inlineData = None\<rparr>],
          config_aspectRatio = Some a\<rparr>])"
  by (simp add: fst_generateImageFromPrompt finalPrompt_def image_request_def)

theorem composed_text_witness:
  "js ''Cinematic'' \<noteq> js ''none'' \<and> js ''blurry'' \<noteq> [] \<and>
   fst (generateImageFromPrompt (rejects (Error [])) (js ''a cat'') (js ''1:1'')
          (js ''Cinematic'') (js ''blurry'')) =
     [\<lparr>model = js ''gemini-2.5-flash-image'',
       contents =
         [\<lparr>part_text = Some (js ''a cat\<newline>Style: Cinematic\<newline>Negative prompt: blurry''),
           inlineData = None\<rparr>],
       config_aspectRatio = Some (js ''1:1'')\<rparr>] \<and>
   fst (generateImageFromPrompt (rejects (Error [])) (js ''a cat'') (js ''1:1'')
          (js ''none'') []) =
     [\<lparr>model = js ''gemini-2.5-flash-image'',
       contents = [\<lparr>part_text = Some (js ''a cat''), inlineData = None\<rparr>],
       config_aspectRatio = Some (js ''1:1'')\<rparr>]"
  using composed_text [of "js ''Cinematic''" "js ''blurry''" "rejects (Error [])" "js ''a cat''"
      "js ''1:1''"]
    composed_text [of "js ''none''" "[]" "rejects (Error [])" "js ''a cat''" "js ''1:1''"]
  by (simp add: js_def)

text \<open>
  When the service answers and none of the parts the loop reads has an \<^verbatim>\<open>inlineData\<close>
  field, the synthesize operation raises the error \<^verbatim>\<open>No image generated\<close>.
\<close>

lemma raises_without_inlineData:
  "gen (image_request (finalPrompt p s n) a) = Inr r \<Longrightarrow>
   \<forall>q\<in>set (response_parts r). inlineData q = None \<Longrightarrow>
   snd (generateImageFromPrompt gen p a s n) = Inl (Error (js ''No image generated''))"
  by (simp add: snd_generateImageFromPrompt scan_parts_no_inline)

text \<open>
  Claim C2. The operation is to raise \<^verbatim>\<open>No image generated\<close>, and return no data-URI,
  whenever no part of the response carries image data. The loop tests the presence of
  \<^verbatim>\<open>inlineData\<close> only, not of the \<^verbatim>\<open>data\<close> inside it. For a response whose single
  part has an \<^verbatim>\<open>inlineData\<close> with a MIME type and no \<^verbatim>\<open>data\<close>, no part carries image
  data, and yet the operation does not raise: it returns the string
  \<^verbatim>\<open>data:image/png;base64,undefined\<close>.
\<close>

theorem undefined_data_returned:
  "data \<lparr>mimeType = Some (js ''image/png''), data = None\<rparr> = None \<and>
   response_parts (response_of [candidate_of [inline_part (Some (js ''image/png'')) None]]) =
     [\<lparr>part_text = None,
       inlineData = Some \<lparr>mimeType = Some (js ''image/png''), data = None\<rparr>\<rparr>] \<and>
   snd (generateImageFromPrompt
          (responds (response_of [candidate_of [inline_part (Some (js ''image/png'')) None]]))
          (js ''a cat'') (js ''1:1'') (js ''none'') []) =
     Inr (js ''data:image/png;base64,undefined'') \<and>
   snd (generateImageFromPrompt
          (responds (response_of [candidate_of [inline_part (Some (js ''image/png'')) None]]))
          (js ''a cat'') (js ''1:1'') (js ''none'') []) \<noteq>
     Inl (Error (js ''No image generated''))"
  by (simp add: generateImageFromPrompt_def responds_def response_parts_def response_of_def
      candidate_of_def inline_part_def data_uri_def falsy_or_def template_def js_def)

text \<open>
  Claim C3. When the service answers the describe request with a response whose
  \<^verbatim>\<open>text\<close> is absent or the empty string, the describe operation returns the literal
  \<^verbatim>\<open>Failed to generate prompt.\<close> as an ordinary result; when the text is not empty it
  returns that text.
\<close>

theorem describe_fallback:
  "gen (describe_request m d) = Inr r \<Longrightarrow>
   (response_text r = None \<or> response_text r = Some [] \<longrightarrow>
      snd (generatePromptFromMedia gen m d) = Inr (js ''Failed to generate prompt.'')) \<and>
   (\<forall>t. response_text r = Some t \<and> t \<noteq> [] \<longrightarrow>
      snd (generatePromptFromMedia gen m d) = Inr t)"
  by (auto simp add: generatePromptFromMedia_def Let_def falsy_or_def)

theorem describe_fallback_witness:
  "snd (generatePromptFromMedia (responds (describe_response None)) (js ''image/jpeg'')
          (js ''QUJD'')) = Inr (js ''Failed to generate prompt.'') \<and>
   snd (generatePromptFromMedia (responds (describe_response (Some []))) (js ''image/jpeg'')
          (js ''QUJD'')) = Inr (js ''Failed to generate prompt.'') \<and>
   snd (generatePromptFromMedia (responds (describe_response (Some (js ''A dog''))))
          (js ''image/jpeg'') (js ''QUJD'')) = Inr (js ''A dog'')"
proof -
  have h: "responds r (describe_request (js ''image/jpeg'') (js ''QUJD'')) = Inr r" for r
    by (simp add: responds_def)
  have ne: "js ''A dog'' \<noteq> []"
    by (simp add: js_def)
  from describe_fallback [where gen = "responds (describe_response None)", OF h]
    describe_fallback [where gen = "responds (describe_response (Some []))", OF h]
    describe_fallback [where gen = "responds (describe_response (Some (js ''A dog'')))", OF h]
    ne
  show ?thesis
    by (simp add: describe_response_def)
qed

text \<open>
  Claim C4, as stated, fails where the first part with \<^verbatim>\<open>inlineData\<close> has the empty
  string as its MIME type: the part is the only one, its \<^verbatim>\<open>mimeType\<close> is \<^verbatim>\<open>""\<close> and
  its \<^verbatim>\<open>data\<close> is \<^verbatim>\<open>QUJD\<close>, and the operation returns
  \<^verbatim>\<open>data:image/png;base64,QUJD\<close>, not \<^verbatim>\<open>data:;base64,QUJD\<close>.
\<close>

theorem data_uri_counterexample:
  "response_parts (response_of [candidate_of [inline_part (Some []) (Some (js ''QUJD''))]]) =
     [inline_part (Some []) (Some (js ''QUJD''))] \<and>
   inlineData (inline_part (Some []) (Some (js ''QUJD''))) =
     Some \<lparr>mimeType = Some [], data = Some (js ''QUJD'')\<rparr> \<and>
   snd (generateImageFromPrompt
          (responds (response_of [candidate_of [inline_part (Some []) (Some (js ''QUJD''))]]))
          (js ''a cat'') (js ''1:1'') (js ''none'') []) =
     Inr (js ''data:image/png;base64,QUJD'') \<and>
   snd (generateImageFromPrompt
          (responds (response_of [candidate_of [inline_part (Some []) (Some (js ''QUJD''))]]))
          (js ''a cat'') (js ''1:1'') (js ''none'') []) \<noteq>
     Inr (js ''data:'' @ [] @ js '';base64,'' @ js ''QUJD'')"
  by (simp add: generateImageFromPrompt_def responds_def response_parts_def response_of_def
      candidate_of_def inline_part_def data_uri_def falsy_or_def template_def js_def)

text \<open>
  Claim C4, amended. When the service answers, the content parts of the response (those
  of its first candidate) contain at least one part with \<^verbatim>\<open>inlineData\<close>, and the first
  such part has a \<^verbatim>\<open>data\<close> field, the operation scans the parts in order and returns
  \<^verbatim>\<open>data:<mimeType>;base64,<data>\<close> built from that first part and from no other part:
  \<^verbatim>\<open><data>\<close> is that part's data, and \<^verbatim>\<open><mimeType>\<close> is that part's MIME type when
  it is present and not empty, and \<^verbatim>\<open>image/png\<close> otherwise.
\<close>

theorem first_inline_part:
  "gen (image_request (finalPrompt p s n) a) = Inr r \<Longrightarrow>
   response_parts r = pre @ q # post \<Longrightarrow>
   \<forall>x\<in>set pre. inlineData x = None \<Longrightarrow>
   inlineData q = Some b \<Longrightarrow>
   data b = Some d \<Longrightarrow>
   snd (generateImageFromPrompt gen p a s n) =
     Inr (js ''data:'' @
          (case mimeType b of
             None \<Rightarrow> js ''image/png''
           | Some m \<Rightarrow> if m = [] then js ''image/png'' else m) @
          js '';base64,'' @ d)"
  by (simp add: snd_generateImageFromPrompt scan_parts_first_inline data_uri_def falsy_or_def
      template_def)

theorem first_inline_part_witness:
  "snd (generateImageFromPrompt
          (responds (response_of
             [candidate_of
                [text_part (js ''here''),
                 inline_part (Some (js ''image/jpeg'')) (Some (js ''QUJD'')),
                 inline_part (Some (js ''image/webp'')) (Some (js ''REVG''))]]))
          (js ''a cat'') (js ''1:1'') (js ''none'') []) =
     Inr (js ''data:image/jpeg;base64,QUJD'')"
proof -
  let ?q = "inline_part (Some (js ''image/jpeg'')) (Some (js ''QUJD''))"
  let ?post = "[inline_part (Some (js ''image/webp'')) (Some (js ''REVG''))]"
  let ?r = "response_of [candidate_of (text_part (js ''here'') # ?q # ?post)]"
  have h1: "responds ?r (image_request (finalPrompt (js ''a cat'') (js ''none'') []) (js ''1:1'')) =
      Inr ?r"
    by (simp add: responds_def)
  have h2: "response_parts ?r = [text_part (js ''here'')] @ ?q # ?post"
    by (simp add: response_parts_def response_of_def candidate_of_def)
  have h3: "\<forall>x\<in>set [text_part (js ''here'')]. inlineData x = None"
    by (simp add: text_part_def)
  have h4: "inlineData ?q = Some \<lparr>mimeType = Some (js ''image/jpeg''), data = Some (js ''QUJD'')\<rparr>"
    by (simp add: inline_part_def)
  have h5: "data \<lparr>mimeType = Some (js ''image/jpeg''), data = Some (js ''QUJD'')\<rparr> =
      Some (js ''QUJD'')"
    by simp
  from first_inline_part [where gen = "responds ?r", OF h1 h2 h3 h4 h5] show ?thesis
    by (simp add: js_def)
qed



text \<open>
  Claim C9. The operation reads the content parts of the first candidate only. A
  response with no candidate list, with an empty candidate list, with a first candidate
  that has no content, or with a content that has no parts is the no-image case: the
  result is the error \<^verbatim>\<open>No image generated\<close>. Otherwise the result is the scan of the
  first candidate's parts, whatever the later candidates hold; so when the first
  candidate has no part with \<^verbatim>\<open>inlineData\<close> the result is that error, even if a later
  candidate carries an image.
\<close>

theorem first_candidate_only:
  "gen (image_request (finalPrompt p s n) a) = Inr r \<Longrightarrow>
   (candidates r = None \<or> candidates r = Some [] \<longrightarrow>
      snd (generateImageFromPrompt gen p a s n) = Inl (Error (js ''No image generated''))) \<and>
   (\<forall>c cs. candidates r = Some (c # cs) \<longrightarrow>
      (content c = None \<longrightarrow>
         snd (generateImageFromPrompt gen p a s n) =
           Inl (Error (js ''No image generated''))) \<and>
      (\<forall>ct. content c = Some ct \<longrightarrow>
         (parts ct = None \<longrightarrow>
            snd (generateImageFromPrompt gen p a s n) =
              Inl (Error (js ''No image generated''))) \<and>
         (\<forall>ps. parts ct = Some ps \<longrightarrow>
            snd (generateImageFromPrompt gen p a s n) = scan_parts ps \<and>
            ((\<forall>q\<in>set ps. inlineData q = None) \<longrightarrow>
               snd (generateImageFromPrompt gen p a s n) =
                 Inl (Error (js ''No image generated''))))))"
  by (auto simp add: snd_generateImageFromPrompt response_parts_def scan_parts_no_inline)

theorem first_candidate_only_witness:
  "snd (generateImageFromPrompt
          (responds (response_of
             [candidate_of [text_part (js ''no'')],
              candidate_of [inline_part (Some (js ''image/png'')) (Some (js ''QUJD''))]]))
          (js ''a cat'') (js ''1:1'') (js ''none'') []) =
     Inl (Error (js ''No image generated'')) \<and>
   snd (generateImageFromPrompt (responds (response_of [])) (js ''a cat'') (js ''1:1'')
          (js ''none'') []) = Inl (Error (js ''No image generated'')) \<and>
   snd (generateImageFromPrompt (responds (describe_response None)) (js ''a cat'') (js ''1:1'')
          (js ''none'') []) = Inl (Error (js ''No image generated'')) \<and>
   snd (generateImageFromPrompt (responds (response_of [\<lparr>content = None\<rparr>])) (js ''a cat'')
          (js ''1:1'') (js ''none'') []) = Inl (Error (js ''No image generated'')) \<and>
   snd (generateImageFromPrompt (responds (response_of [\<lparr>content = Some \<lparr>parts = None\<rparr>\<rparr>]))
          (js ''a cat'') (js ''1:1'') (js ''none'') []) = Inl (Error (js ''No image generated''))"
proof -
  have h: "responds r (image_request (finalPrompt (js ''a cat'') (js ''none'') []) (js ''1:1'')) =
      Inr r" for r
    by (simp add: responds_def)
  let ?two = "response_of
             [candidate_of [text_part (js ''no'')],
              candidate_of [inline_part (Some (js ''image/png'')) (Some (js ''QUJD''))]]"
  from first_candidate_only [where gen = "responds ?two", OF h]
    first_candidate_only [where gen = "responds (response_of [])", OF h]
    first_candidate_only [where gen = "responds (describe_response None)", OF h]
    first_candidate_only [where gen = "responds (response_of [\<lparr>content = None\<rparr>])", OF h]
    first_candidate_only
      [where gen = "responds (response_of [\<lparr>content = Some \<lparr>parts = None\<rparr>\<rparr>])", OF h]
  show ?thesis
    by (simp add: response_of_def describe_response_def candidate_of_def text_part_def)
qed


section \<open>Properties of the application\<close>

lemma trim_empty_iff: "trim s = [] \<longleftrightarrow> (\<forall>c\<in>set s. isWhiteSpace c)"
proof -
  have "(\<forall>c\<in>set (dropWhile isWhiteSpace s). isWhiteSpace c) \<longleftrightarrow> dropWhile isWhiteSpace s = []"
  proof
    assume all: "\<forall>c\<in>set (dropWhile isWhiteSpace s). isWhiteSpace c"
    show "dropWhile isWhiteSpace s = []"
    proof (rule ccontr)
      assume ne: "dropWhile isWhiteSpace s \<noteq> []"
      then have "\<not> isWhiteSpace (hd (dropWhile isWhiteSpace s))" by (rule hd_dropWhile)
      moreover from ne have "hd (dropWhile isWhiteSpace s) \<in> set (dropWhile isWhiteSpace s)"
        by (rule hd_in_set)
      ultimately show False using all by blast
    qed
  next
    assume e: "dropWhile isWhiteSpace s = []"
    show "\<forall>c\<in>set (dropWhile isWhiteSpace s). isWhiteSpace c" unfolding e by simp
  qed
  then show ?thesis
    by (simp add: trim_def dropWhile_eq_Nil_conv)
qed

lemma requests_of_append: "requests_of (es @ fs) = requests_of es @ requests_of fs"
  by (induction es rule: requests_of.induct) simp_all

lemma requests_of_map: "requests_of (map GenerateContent rs) = rs"
  by (induction rs) simp_all

text \<open>
  Claim C6. When the selected file's MIME type starts with neither \<^verbatim>\<open>image/\<close> nor
  \<^verbatim>\<open>video/\<close>, or its size is more than 15 * 1024 * 1024 bytes, \<open>processFile\<close> clears the
  error and sets one of its two validation messages, and does nothing else: it sends no
  request, encodes no file and does not set the accepted file, which stays as it was. The
  describe action after it does exactly what it would have done before the selection; in
  particular, with no file accepted before, it does nothing.
\<close>

theorem invalid_file_rejected:
  assumes "(\<not> startsWith (file_type f) (js ''image/'') \<and>
            \<not> startsWith (file_type f) (js ''video/'')) \<or>
           file_size f > 15 * 1024 * 1024"
  shows "(processFile e f =
            [SetError None, SetError (Some (js ''Please upload an image or video file.''))] \<or>
          processFile e f =
            [SetError None,
             SetError (Some (js ''File size exceeds 15MB limit. Please choose a smaller file.''))]) \<and>
         requests_of (processFile e f) = [] \<and>
         encoded_of (processFile e f) = [] \<and>
         file' (run s (processFile e f)) = file' s \<and>
         error (run s (processFile e f)) \<noteq> None \<and>
         handleGeneratePrompt e' (run s (processFile e f)) = handleGeneratePrompt e' s \<and>
         (file' s = None \<longrightarrow> handleGeneratePrompt e' (run s (processFile e f)) = [])"
proof -
  have h: "processFile e f =
            [SetError None, SetError (Some (js ''Please upload an image or video file.''))] \<or>
          processFile e f =
            [SetError None,
             SetError (Some (js ''File size exceeds 15MB limit. Please choose a smaller file.''))]"
    using assms by (auto simp add: processFile_def)
  then show ?thesis
    by (auto simp add: run_def handleGeneratePrompt_def)
qed

theorem invalid_file_rejected_witness:
  "processFile (stub_env (rejects (Error [])))
     \<lparr>file_name = js ''notes.pdf'', file_type = js ''application/pdf'', file_size = 2048\<rparr> =
     [SetError None, SetError (Some (js ''Please upload an image or video file.''))] \<and>
   processFile (stub_env (rejects (Error [])))
     \<lparr>file_name = js ''big.png'', file_type = js ''image/png'', file_size = 15728641\<rparr> =
     [SetError None,
      SetError (Some (js ''File size exceeds 15MB limit. Please choose a smaller file.''))] \<and>
   file' (run initial_state (processFile (stub_env (rejects (Error [])))
      \<lparr>file_name = js ''big.png'', file_type = js ''image/png'', file_size = 15728641\<rparr>)) = None \<and>
   handleGeneratePrompt (stub_env (rejects (Error [])))
     (run initial_state (processFile (stub_env (rejects (Error [])))
        \<lparr>file_name = js ''big.png'', file_type = js ''image/png'', file_size = 15728641\<rparr>)) = []"
proof -
  let ?e = "stub_env (rejects (Error []))"
  let ?pdf = "\<lparr>file_name = js ''notes.pdf'', file_type = js ''application/pdf'', file_size = 2048\<rparr>"
  let ?big = "\<lparr>file_name = js ''big.png'', file_type = js ''image/png'', file_size = 15728641\<rparr>"
  have h1: "(\<not> startsWith (file_type ?pdf) (js ''image/'') \<and>
             \<not> startsWith (file_type ?pdf) (js ''video/'')) \<or>
            file_size ?pdf > 15 * 1024 * 1024"
    by (simp add: startsWith_def js_def)
  have h2: "(\<not> startsWith (file_type ?big) (js ''image/'') \<and>
             \<not> startsWith (file_type ?big) (js ''video/'')) \<or>
            file_size ?big > 15 * 1024 * 1024"
    by simp
  have t: "startsWith (file_type ?big) (js ''image/'')"
    by (simp add: startsWith_def js_def)
  have a: "processFile ?e ?pdf =
      [SetError None, SetError (Some (js ''Please upload an image or video file.''))]"
    using h1 by (simp add: processFile_def)
  have b: "processFile ?e ?big =
      [SetError None,
       SetError (Some (js ''File size exceeds 15MB limit. Please choose a smaller file.''))]"
    using t by (simp add: processFile_def)
  have i: "file' initial_state = None"
    by (simp add: initial_state_def)
  note r = invalid_file_rejected [OF h2, of ?e initial_state ?e]
  from r have c: "file' (run initial_state (processFile ?e ?big)) = file' initial_state"
    by blast
  from r i have g: "handleGeneratePrompt ?e (run initial_state (processFile ?e ?big)) = []"
    by blast
  from a b c g i show ?thesis
    by (simp only: simp_thms)
qed

text \<open>
  Claim C7. When every code unit of the prompt is white space (the prompt is empty or
  white space only), the synthesize action sets the validation message
  \<^verbatim>\<open>Please enter a prompt first.\<close> and does nothing else: it sends no request, so
  \<open>generateImageFromPrompt\<close> is not called.
\<close>

theorem empty_prompt_rejected:
  "\<forall>c\<in>set (prompt s). isWhiteSpace c \<Longrightarrow>
   handleGenerateImage e s = [SetError (Some (js ''Please enter a prompt first.''))] \<and>
   requests_of (handleGenerateImage e s) = [] \<and>
   error (run s (handleGenerateImage e s)) = Some (js ''Please enter a prompt first.'')"
  by (simp add: handleGenerateImage_def trim_empty_iff run_def)

theorem empty_prompt_rejected_witness:
  "handleGenerateImage (stub_env (responds (response_of []))) (editing (js '' \<newline>  '')) =
     [SetError (Some (js ''Please enter a prompt first.''))] \<and>
   handleGenerateImage (stub_env (responds (response_of []))) (editing []) =
     [SetError (Some (js ''Please enter a prompt first.''))]"
proof -
  have h1: "\<forall>c\<in>set (prompt (editing (js '' \<newline>  ''))). isWhiteSpace c"
    by (simp add: editing_def isWhiteSpace_def js_def)
  have h2: "\<forall>c\<in>set (prompt (editing [])). isWhiteSpace c"
    by (simp add: editing_def)
  from empty_prompt_rejected [OF h1] empty_prompt_rejected [OF h2] show ?thesis
    by simp
qed

text \<open>
  Claim C8. When the prompt passes the emptiness check and \<open>generateImageFromPrompt\<close>
  raises, the synthesize action never calls the setter of the generated image, so the
  stored image is what it was. The state after the action is the state before it with
  the error message set to \<^verbatim>\<open>Failed to generate image. Please try again.\<close> and the
  busy flag of the action, raised for the duration of the call, lowered again; from a
  state where the flag is down (the only one in which the control is enabled) the error
  message is the only cell that changes.
\<close>

theorem failure_keeps_image:
  assumes "trim (prompt s) \<noteq> []"
    and "snd (generateImageFromPrompt (generate e) (prompt s) (aspectRatio s) (style s)
           (negativePrompt s)) = Inl err"
  shows "generatedImage (run s (handleGenerateImage e s)) = generatedImage s \<and>
         (\<forall>v. SetGeneratedImage v \<notin> set (handleGenerateImage e s)) \<and>
         run s (handleGenerateImage e s) =
           s\<lparr>isGeneratingImage := False,
             error := Some (js ''Failed to generate image. Please try again.'')\<rparr> \<and>
         (\<not> isGeneratingImage s \<longrightarrow>
            run s (handleGenerateImage e s) =
              s\<lparr>error := Some (js ''Failed to generate image. Please try again.'')\<rparr>)"
proof -
  obtain reqs where g: "generateImageFromPrompt (generate e) (prompt s) (aspectRatio s) (style s)
      (negativePrompt s) = (reqs, Inl err)"
    using assms(2) by (cases "generateImageFromPrompt (generate e) (prompt s) (aspectRatio s)
      (style s) (negativePrompt s)") simp
  have reqs: "reqs = [image_request (finalPrompt (prompt s) (style s) (negativePrompt s))
      (aspectRatio s)]"
    using g by (simp add: generateImageFromPrompt_def Let_def)
  have h: "handleGenerateImage e s =
      [SetIsGeneratingImage True, SetError None, GenerateContent (hd reqs), ConsoleError err,
       SetError (Some (js ''Failed to generate image. Please try again.'')),
       SetIsGeneratingImage False]"
    using assms(1) g reqs by (simp add: handleGenerateImage_def)
  show ?thesis
    unfolding h by (simp add: run_def)
qed

theorem failure_keeps_image_witness:
  "generatedImage
     (run (showing (js ''a cat'') (js ''data:image/png;base64,QUJD''))
        (handleGenerateImage (stub_env (rejects (Error (js ''offline''))))
           (showing (js ''a cat'') (js ''data:image/png;base64,QUJD'')))) =
     Some (js ''data:image/png;base64,QUJD'') \<and>
   run (showing (js ''a cat'') (js ''data:image/png;base64,QUJD''))
     (handleGenerateImage (stub_env (responds (response_of [])))
        (showing (js ''a cat'') (js ''data:image/png;base64,QUJD''))) =
     (showing (js ''a cat'') (js ''data:image/png;base64,QUJD''))
       \<lparr>error := Some (js ''Failed to generate image. Please try again.'')\<rparr>"
proof -
  let ?s = "showing (js ''a cat'') (js ''data:image/png;base64,QUJD'')"
  let ?off = "stub_env (rejects (Error (js ''offline'')))"
  let ?none = "stub_env (responds (response_of []))"
  have p: "prompt ?s = js ''a cat''"
    by (simp add: showing_def)
  have h1: "trim (prompt ?s) \<noteq> []"
    unfolding p by (simp add: trim_def isWhiteSpace_def js_def)
  have h2: "snd (generateImageFromPrompt (generate ?off) (prompt ?s) (aspectRatio ?s) (style ?s)
      (negativePrompt ?s)) = Inl (Error (js ''offline''))"
    by (simp add: generateImageFromPrompt_def Let_def stub_env_def rejects_def)
  have h3: "snd (generateImageFromPrompt (generate ?none) (prompt ?s) (aspectRatio ?s) (style ?s)
      (negativePrompt ?s)) = Inl (Error (js ''No image generated''))"
    by (simp add: generateImageFromPrompt_def Let_def stub_env_def responds_def
        response_parts_def response_of_def)
  have i: "generatedImage ?s = Some (js ''data:image/png;base64,QUJD'')"
    by (simp add: showing_def)
  have b: "\<not> isGeneratingImage ?s"
    by (simp add: showing_def initial_state_def)
  note r1 = failure_keeps_image [OF h1 h2]
  note r2 = failure_keeps_image [OF h1 h3]
  from r1 i have c1: "generatedImage (run ?s (handleGenerateImage ?off ?s)) =
      Some (js ''data:image/png;base64,QUJD'')"
    by simp
  from r2 b have c2: "run ?s (handleGenerateImage ?none ?s) =
      ?s\<lparr>error := Some (js ''Failed to generate image. Please try again.'')\<rparr>"
    by blast
  from c1 c2 show ?thesis
    by (simp only: simp_thms)
qed

text \<open>
  Claim C10. When the trimmed prompt is not empty, the synthesize action sends exactly
  one request, with a single text part, and the text of that part begins with the prompt
  as the user typed it, white space at both ends included, followed only by the style
  line and the negative prompt line when they apply. The trimmed text is used for the
  emptiness check alone.
\<close>

theorem prompt_sent_untrimmed:
  "trim (prompt s) \<noteq> [] \<Longrightarrow>
   requests_of (handleGenerateImage e s) =
     [\<lparr>model = js ''gemini-2.5-flash-image'',
       contents =
         [\<lparr>part_text =
             Some (prompt s @
                   (if style s = js ''none'' then [] else js ''\<newline>Style: '' @ style s) @
                   (if negativePrompt s = [] then []
                    else js ''\<newline>Negative prompt: '' @ negativePrompt s)),
           inlineData = None\<rparr>],
       config_aspectRatio = Some (aspectRatio s)\<rparr>]"
  by (simp add: handleGenerateImage_def generateImageFromPrompt_def Let_def finalPrompt_def
      image_request_def requests_of_append requests_of_map split: sum.split)

theorem prompt_sent_untrimmed_witness:
  "trim (js ''  a cat '') = js ''a cat'' \<and>
   js ''  a cat '' \<noteq> js ''a cat'' \<and>
   requests_of (handleGenerateImage (stub_env (rejects (Error []))) (editing (js ''  a cat ''))) =
     [\<lparr>model = js ''gemini-2.5-flash-image'',
       contents = [\<lparr>part_text = Some (js ''  a cat ''), inlineData = None\<rparr>],
       config_aspectRatio = Some (js ''1:1'')\<rparr>]"
proof -
  let ?s = "editing (js ''  a cat '')"
  have t: "trim (js ''  a cat '') = js ''a cat''"
    by (simp add: trim_def isWhiteSpace_def js_def)
  have d: "js ''  a cat '' \<noteq> js ''a cat''"
    by (simp add: js_def)
  have p: "prompt ?s = js ''  a cat ''"
    by (simp add: editing_def)
  have h: "trim (prompt ?s) \<noteq> []"
    unfolding p t by (simp add: js_def)
  have f: "style ?s = js ''none''" "negativePrompt ?s = []" "aspectRatio ?s = js ''1:1''"
    by (simp_all add: editing_def initial_state_def)
  from prompt_sent_untrimmed [OF h, of "stub_env (rejects (Error []))"] t d show ?thesis
    unfolding p f by simp
qed

end
